theory Spec2Isabelle
  imports Complex_Main
begin

section \<open>Floating-point values\<close>

text \<open>
  The indicator code computes on pandas series of IEEE doubles. A double is modelled by
  the real number it denotes, or by one of the three special values: rounding is not
  modelled, and the two zeros are identified (a division of a non-zero value by zero
  gives the infinity with the sign of the numerator). Comparisons with \<open>NaN\<close> are false,
  as in numpy.
\<close>

datatype pyfloat = Fin real | PInf | NInf | NaN

datatype py_error = ValueError

fun isnan :: "pyfloat \<Rightarrow> bool" where
  "isnan NaN = True"
| "isnan _ = False"


fun fneg :: "pyfloat \<Rightarrow> pyfloat" where
  "fneg (Fin x) = Fin (- x)"
| "fneg PInf = NInf"
| "fneg NInf = PInf"
| "fneg NaN = NaN"

fun fadd :: "pyfloat \<Rightarrow> pyfloat \<Rightarrow> pyfloat" where
  "fadd NaN _ = NaN"
| "fadd _ NaN = NaN"
| "fadd PInf NInf = NaN"
| "fadd NInf PInf = NaN"
| "fadd PInf _ = PInf"
| "fadd _ PInf = PInf"
| "fadd NInf _ = NInf"
| "fadd _ NInf = NInf"
| "fadd (Fin x) (Fin y) = Fin (x + y)"

definition fsub :: "pyfloat \<Rightarrow> pyfloat \<Rightarrow> pyfloat" where
  "fsub a b = fadd a (fneg b)"

fun fmul :: "pyfloat \<Rightarrow> pyfloat \<Rightarrow> pyfloat" where
  "fmul NaN _ = NaN"
| "fmul _ NaN = NaN"
| "fmul PInf PInf = PInf"
| "fmul PInf NInf = NInf"
| "fmul NInf PInf = NInf"
| "fmul NInf NInf = PInf"
| "fmul PInf (Fin y) = (if y = 0 then NaN else if 0 < y then PInf else NInf)"
| "fmul NInf (Fin y) = (if y = 0 then NaN else if 0 < y then NInf else PInf)"
| "fmul (Fin x) PInf = (if x = 0 then NaN else if 0 < x then PInf else NInf)"
| "fmul (Fin x) NInf = (if x = 0 then NaN else if 0 < x then NInf else PInf)"
| "fmul (Fin x) (Fin y) = Fin (x * y)"

fun fdiv :: "pyfloat \<Rightarrow> pyfloat \<Rightarrow> pyfloat" where
  "fdiv NaN _ = NaN"
| "fdiv _ NaN = NaN"
| "fdiv PInf PInf = NaN"
| "fdiv PInf NInf = NaN"
| "fdiv NInf PInf = NaN"
| "fdiv NInf NInf = NaN"
| "fdiv PInf (Fin y) = (if y < 0 then NInf else PInf)"
| "fdiv NInf (Fin y) = (if y < 0 then PInf else NInf)"
| "fdiv (Fin x) PInf = Fin 0"
| "fdiv (Fin x) NInf = Fin 0"
| "fdiv (Fin x) (Fin y) =
     (if y = 0 then (if x = 0 then NaN else if 0 < x then PInf else NInf)
      else Fin (x / y))"

fun flt :: "pyfloat \<Rightarrow> pyfloat \<Rightarrow> bool" where
  "flt NaN _ = False"
| "flt _ NaN = False"
| "flt PInf _ = False"
| "flt _ NInf = False"
| "flt NInf _ = True"
| "flt (Fin x) PInf = True"
| "flt (Fin x) (Fin y) = (x < y)"

definition fgt :: "pyfloat \<Rightarrow> pyfloat \<Rightarrow> bool" where
  "fgt a b = flt b a"


section \<open>Series operations of pandas\<close>

text \<open>
  A series is the list of its values in index order. The operations below are those of
  pandas that the indicator code calls, as pandas documents them.
\<close>

type_synonym series = "pyfloat list"

text \<open>\<open>s.diff()\<close>: the first element has no predecessor and is \<open>NaN\<close>.\<close>

definition diff :: "series \<Rightarrow> series" where
  "diff xs = (case xs of [] \<Rightarrow> []
              | x # rest \<Rightarrow> NaN # map (\<lambda>(cur, prev). fsub cur prev) (zip rest xs))"

text \<open>\<open>s.where(cond, other)\<close> with the condition computed from \<open>s\<close> itself.\<close>

definition series_where :: "(pyfloat \<Rightarrow> bool) \<Rightarrow> pyfloat \<Rightarrow> series \<Rightarrow> series" where
  "series_where cond other xs = map (\<lambda>x. if cond x then x else other) xs"

definition fillna :: "pyfloat \<Rightarrow> series \<Rightarrow> series" where
  "fillna v xs = map (\<lambda>x. if isnan x then v else x) xs"

definition fsum :: "series \<Rightarrow> pyfloat" where
  "fsum xs = foldl fadd (Fin 0) xs"

text \<open>
  The window that ends at position \<open>i\<close>: the last \<open>w\<close> values up to and including \<open>i\<close>.
\<close>

definition window_at :: "nat \<Rightarrow> 'a list \<Rightarrow> nat \<Rightarrow> 'a list" where
  "window_at w xs i = take w (drop (Suc i - w) xs)"

text \<open>
  \<open>s.rolling(window=w).apply(f)\<close> with the default \<open>min_periods = w\<close>: the value at \<open>i\<close> is
  \<open>NaN\<close> until \<open>w\<close> observations are there, and whenever the window holds a \<open>NaN\<close>. A
  negative window raises \<open>ValueError\<close>; an empty window has no observation.
\<close>

definition rolling_at :: "(series \<Rightarrow> pyfloat) \<Rightarrow> nat \<Rightarrow> series \<Rightarrow> nat \<Rightarrow> pyfloat" where
  "rolling_at f w xs i =
     (if w = 0 \<or> Suc i < w \<or> list_ex isnan (window_at w xs i) then NaN
      else f (window_at w xs i))"

definition rolling_apply :: "(series \<Rightarrow> pyfloat) \<Rightarrow> int \<Rightarrow> series \<Rightarrow> py_error + series" where
  "rolling_apply f window xs =
     (if window < 0 then Inl ValueError
      else Inr (map (rolling_at f (nat window) xs) [0..<length xs]))"

definition mean :: "series \<Rightarrow> pyfloat" where
  "mean xs = fdiv (fsum xs) (Fin (real (length xs)))"

text \<open>\<open>s.rolling(window=w).mean()\<close>.\<close>

definition rolling_mean :: "int \<Rightarrow> series \<Rightarrow> py_error + series" where
  "rolling_mean window xs = rolling_apply mean window xs"

text \<open>
  \<open>s.ewm(span=n, adjust=False).mean()\<close>: \<open>y\<^sub>0 = x\<^sub>0\<close> and
  \<open>y\<^sub>t = (1 - \<alpha>) y\<^sub>t\<^sub>-\<^sub>1 + \<alpha> x\<^sub>t\<close> with \<open>\<alpha> = 2 / (n + 1)\<close>; a span below 1 raises
  \<open>ValueError\<close>. The series it is applied to here never hold a \<open>NaN\<close>, and the skipping of
  \<open>NaN\<close> observations is not modelled.
\<close>

fun ewm_from :: "real \<Rightarrow> pyfloat \<Rightarrow> series \<Rightarrow> series" where
  "ewm_from \<alpha> y [] = []"
| "ewm_from \<alpha> y (x # xs) =
     (let y' = fadd (fmul (Fin (1 - \<alpha>)) y) (fmul (Fin \<alpha>) x)
      in y' # ewm_from \<alpha> y' xs)"

definition ewm_mean :: "int \<Rightarrow> series \<Rightarrow> py_error + series" where
  "ewm_mean spn xs =
     (if spn < 1 then Inl ValueError
      else Inr (case xs of [] \<Rightarrow> []
                | x # rest \<Rightarrow> x # ewm_from (2 / (real_of_int spn + 1)) x rest))"

section \<open>The indicator engine\<close>

subsection \<open>\<open>ultimate_rsi_tracker.RSICalculator\<close>\<close>

text \<open>\<open>100 - (100 / (1 + rs))\<close>, element by element.\<close>

definition rsi_of_rs :: "pyfloat \<Rightarrow> pyfloat" where
  "rsi_of_rs rs = fsub (Fin 100) (fdiv (Fin 100) (fadd (Fin 1) rs))"

definition gains_of :: "series \<Rightarrow> series" where
  "gains_of deltas = series_where (\<lambda>d. fgt d (Fin 0)) (Fin 0) deltas"

definition losses_of :: "series \<Rightarrow> series" where
  "losses_of deltas = map fneg (series_where (\<lambda>d. flt d (Fin 0)) (Fin 0) deltas)"

definition calculate_rsi :: "series \<Rightarrow> int \<Rightarrow> py_error + series" where
  "calculate_rsi prices period =
     (if int (length prices) < period + 1
      then Inr (replicate (length prices) (Fin 50))
      else
        let deltas = diff prices;
            gains = gains_of deltas;
            losses = losses_of deltas
        in case rolling_mean period gains of
             Inl e \<Rightarrow> Inl e
           | Inr avg_gains \<Rightarrow>
               (case rolling_mean period losses of
                  Inl e \<Rightarrow> Inl e
                | Inr avg_losses \<Rightarrow>
                    let rs = map (\<lambda>(g, l). fdiv g l) (zip avg_gains avg_losses);
                        rsi = map rsi_of_rs rs
                    in Inr (fillna (Fin 50) rsi)))"

text \<open>
  The status shown in the table by \<open>update_stock_data\<close>, from the last RSI value (the
  labels are the three strings of the source).
\<close>

datatype rsi_status = Overbought | Oversold | Neutral

definition rsi_status :: "pyfloat \<Rightarrow> rsi_status" where
  "rsi_status rsi =
     (if fgt rsi (Fin 70) then Overbought
      else if flt rsi (Fin 30) then Oversold
      else Neutral)"

subsection \<open>\<open>indicators.rsi_calculator.RSICalculator\<close>\<close>

record rsi_calculator =
  period :: int
  overbought_level :: int
  oversold_level :: int

definition RSICalculator_init :: "int \<Rightarrow> rsi_calculator" where
  "RSICalculator_init p = \<lparr>period = p, overbought_level = 70, oversold_level = 30\<rparr>"

text \<open>The EMA variant: no length check, and the result is returned as computed.\<close>

definition indicators_calculate_rsi :: "rsi_calculator \<Rightarrow> series \<Rightarrow> py_error + series" where
  "indicators_calculate_rsi self data =
     (let delta = diff data;
          gain = gains_of delta;
          loss = losses_of delta
      in case ewm_mean (period self) gain of
           Inl e \<Rightarrow> Inl e
         | Inr avg_gain \<Rightarrow>
             (case ewm_mean (period self) loss of
                Inl e \<Rightarrow> Inl e
              | Inr avg_loss \<Rightarrow>
                  let rs = map (\<lambda>(g, l). fdiv g l) (zip avg_gain avg_loss)
                  in Inr (map rsi_of_rs rs)))"

datatype signal = HOLD | BUY | SELL

text \<open>
  One row of \<open>detect_signals\<close>: the column starts as \<open>HOLD\<close>, the rows below the oversold
  level are set to \<open>BUY\<close>, then the rows above the overbought level are set to \<open>SELL\<close>.
\<close>

definition signal_of :: "rsi_calculator \<Rightarrow> pyfloat \<Rightarrow> signal" where
  "signal_of self r =
     (let s = HOLD;
          s = (if flt r (Fin (real_of_int (oversold_level self))) then BUY else s);
          s = (if fgt r (Fin (real_of_int (overbought_level self))) then SELL else s)
      in s)"

text \<open>\<open>Signal != Signal.shift(1)\<close>: the first row has no predecessor and differs from it.\<close>

definition signal_change :: "signal list \<Rightarrow> bool list" where
  "signal_change ss = (case ss of [] \<Rightarrow> []
                       | s # rest \<Rightarrow> True # map (\<lambda>(cur, prev). cur \<noteq> prev) (zip rest ss))"

text \<open>The rows of the frame returned: \<open>RSI\<close>, \<open>Signal\<close>, \<open>Signal_Change\<close>.\<close>

definition detect_signals :: "rsi_calculator \<Rightarrow> series \<Rightarrow> (pyfloat \<times> signal \<times> bool) list" where
  "detect_signals self rsi =
     (let sig = map (signal_of self) rsi
      in zip rsi (zip sig (signal_change sig)))"


subsection \<open>Predicates on series\<close>



subsection \<open>Divergence detection\<close>






subsection \<open>Moving averages\<close>










section \<open>The price-history cache\<close>

text \<open>
  A data frame is the list of its rows, in index order, with the columns of a price
  history; \<open>data.empty\<close> is the empty list.
\<close>

record price_bar =
  Open :: pyfloat
  High :: pyfloat
  Low :: pyfloat
  Close :: pyfloat
  Volume :: pyfloat

type_synonym dataframe = "price_bar list"


text \<open>
  The data source \<open>yf.Ticker(symbol).history(period=period)\<close> is outside the program: a
  call raises or returns a frame, and each call of \<open>get_stock_data\<close> is given the data
  source as it answers at that moment.
\<close>

datatype fetch_outcome = Raises | Returns dataframe


text \<open>
  \<open>StockData\<close> (and \<open>EnhancedStockData\<close>, whose \<open>get_stock_data\<close> is the same code). The
  clock \<open>time.time()\<close> is a real number of seconds. The field \<open>requests\<close> is not in the
  source: it logs the calls made to the data source, so that they can be counted.
\<close>

record stock_data =
  cache :: "string \<rightharpoonup> dataframe \<times> real"
  cache_timeout :: real
  requests :: "(string \<times> string) list"

definition StockData_init :: stock_data where
  "StockData_init = \<lparr>cache = Map.empty, cache_timeout = 60, requests = []\<rparr>"


text \<open>\<open>f"{symbol}_{period}"\<close>\<close>

definition cache_key_of :: "string \<Rightarrow> string \<Rightarrow> string" where
  "cache_key_of symbol period' = symbol @ ''_'' @ period'"


text \<open>The check of the cache: the data of an entry younger than the timeout.\<close>

definition cache_lookup :: "stock_data \<Rightarrow> string \<Rightarrow> real \<Rightarrow> dataframe option" where
  "cache_lookup self cache_key current_time =
     (case cache self cache_key of
        None \<Rightarrow> None
      | Some (data, timestamp) \<Rightarrow>
          if current_time - timestamp < cache_timeout self then Some data else None)"

definition get_stock_data ::
  "(string \<Rightarrow> string \<Rightarrow> fetch_outcome) \<Rightarrow> real \<Rightarrow> stock_data \<Rightarrow> string \<Rightarrow> string
     \<Rightarrow> dataframe option \<times> stock_data" where
  "get_stock_data history current_time self symbol period' =
     (let cache_key = cache_key_of symbol period' in
      case cache_lookup self cache_key current_time of
        Some data \<Rightarrow> (Some data, self)
      | None \<Rightarrow>
          (let self = self\<lparr>requests := requests self @ [(symbol, period')]\<rparr> in
           case history symbol period' of
             Raises \<Rightarrow> (None, self)
           | Returns data \<Rightarrow>
               if data = [] then (None, self)
               else (Some data,
                     self\<lparr>cache := (cache self)(cache_key \<mapsto> (data, current_time))\<rparr>)))"


text \<open>A row and three data sources, for the examples.\<close>

definition example_bar :: price_bar where
  "example_bar = \<lparr>Open = Fin 10, High = Fin 12, Low = Fin 9, Close = Fin 11, Volume = Fin 1000\<rparr>"

definition source_up :: "string \<Rightarrow> string \<Rightarrow> fetch_outcome" where
  "source_up symbol period' = Returns [example_bar]"

definition source_down :: "string \<Rightarrow> string \<Rightarrow> fetch_outcome" where
  "source_down symbol period' = Raises"

definition source_empty :: "string \<Rightarrow> string \<Rightarrow> fetch_outcome" where
  "source_empty symbol period' = Returns []"

section \<open>The watchlist file\<close>

text \<open>
  The watchlist is kept in a JSON file written by \<open>json.dump\<close> and read by \<open>json.load\<close>.
  Both are library code; they are modelled on the text of the file, for a list of
  strings. A Python string is modelled by a \<open>string\<close>, whose characters are the code
  points below 256.
\<close>

subsection \<open>\<open>json.dump\<close> of a list of strings\<close>

text \<open>
  With the default \<open>ensure_ascii\<close>: a backslash, a double quote and the five control
  characters with a short escape are escaped with a backslash, the other characters from
  the space to the tilde stand for themselves, and every other character is written
  \<open>\uXXXX\<close> with four lower-case hexadecimal digits. The items are separated by a comma
  and a space.
\<close>

definition hex_digits :: string where
  "hex_digits = ''0123456789abcdef''"

definition hex4 :: "nat \<Rightarrow> string" where
  "hex4 n = [hex_digits ! (n div 4096 mod 16), hex_digits ! (n div 256 mod 16),
             hex_digits ! (n div 16 mod 16), hex_digits ! (n mod 16)]"

definition escape_char :: "char \<Rightarrow> string" where
  "escape_char c =
     (if c = CHR 0x5C then [CHR 0x5C, CHR 0x5C]
      else if c = CHR 0x22 then [CHR 0x5C, CHR 0x22]
      else if c = CHR 0x08 then [CHR 0x5C, CHR ''b'']
      else if c = CHR 0x0C then [CHR 0x5C, CHR ''f'']
      else if c = CHR 0x0A then [CHR 0x5C, CHR ''n'']
      else if c = CHR 0x0D then [CHR 0x5C, CHR ''r'']
      else if c = CHR 0x09 then [CHR 0x5C, CHR ''t'']
      else if 32 \<le> (of_char c :: nat) \<and> (of_char c :: nat) \<le> 126 then [c]
      else CHR 0x5C # CHR ''u'' # hex4 (of_char c))"

definition encode_string :: "string \<Rightarrow> string" where
  "encode_string s = CHR 0x22 # concat (map escape_char s) @ [CHR 0x22]"

fun join_items :: "string list \<Rightarrow> string" where
  "join_items [] = []"
| "join_items [x] = x"
| "join_items (x # y # ys) = x @ '', '' @ join_items (y # ys)"

definition json_dumps :: "string list \<Rightarrow> string" where
  "json_dumps xs = ''['' @ join_items (map encode_string xs) @ '']''"


subsection \<open>\<open>json.load\<close> of a list of strings\<close>















section \<open>The tracker and its watchlist\<close>

text \<open>
  The parts of \<open>UltimateRSITracker\<close> that the watchlist operations read and write. The
  message boxes shown are logged in \<open>dialogs\<close>, the rows of the table are the list of their
  ids, \<open>update_threads\<close> logs the symbols for which an update thread was started, and
  \<open>files\<close> is the content of the files on disk, by path. Console output is not modelled.
\<close>

datatype dialog = ShowWarning string string | ShowError string string

record tracker =
  watchlist :: "string list"
  watchlist_file :: string
  stock_data :: stock_data
  symbol_entry :: string
  tree :: "string list"
  status_label :: string
  dialogs :: "dialog list"
  update_threads :: "string list"
  files :: "string \<rightharpoonup> string"


text \<open>
  \<open>str.strip()\<close> and \<open>str.upper()\<close>, on the characters below 256. The case mapping is that
  of the ASCII letters; Python also maps letters outside ASCII.
\<close>

definition is_space :: "char \<Rightarrow> bool" where
  "is_space c = (c \<in> set [CHR 0x09, CHR 0x0A, CHR 0x0B, CHR 0x0C, CHR 0x0D, CHR 0x1C, CHR 0x1D,
                            CHR 0x1E, CHR 0x1F, CHR 0x20, CHR 0x85, CHR 0xA0])"

definition strip :: "string \<Rightarrow> string" where
  "strip s = rev (dropWhile is_space (rev (dropWhile is_space s)))"

definition upper_char :: "char \<Rightarrow> char" where
  "upper_char c =
     (case map_of (zip ''abcdefghijklmnopqrstuvwxyz'' ''ABCDEFGHIJKLMNOPQRSTUVWXYZ'') c of
        None \<Rightarrow> c
      | Some u \<Rightarrow> u)"

definition upper :: "string \<Rightarrow> string" where
  "upper s = map upper_char s"


text \<open>
  \<open>save_watchlist\<close> and \<open>load_watchlist\<close>. The parameter says whether the file operations
  succeed: when \<open>open\<close> raises, the exception is caught, the file is left as it is, and the
  loader falls back to the empty list. A file that is absent leaves the watchlist as it
  is.
\<close>

definition save_watchlist :: "bool \<Rightarrow> tracker \<Rightarrow> tracker" where
  "save_watchlist write_ok self =
     (if write_ok
      then self\<lparr>files := (files self)(watchlist_file self \<mapsto> json_dumps (watchlist self))\<rparr>
      else self)"



text \<open>The user types into the entry field.\<close>

definition type_symbol :: "string \<Rightarrow> tracker \<Rightarrow> tracker" where
  "type_symbol entry self = self\<lparr>symbol_entry := entry\<rparr>"


text \<open>
  \<open>add_stock\<close> (the same code in \<open>rsi_tracker_app.py\<close>, which runs the update at once
  instead of on a thread). The symbol is validated by a fetch of its price history. A row
  id that is already in the table makes \<open>tree.insert\<close> raise, which ends the handler
  there.
\<close>

definition add_stock ::
  "(string \<Rightarrow> string \<Rightarrow> fetch_outcome) \<Rightarrow> real \<Rightarrow> bool \<Rightarrow> tracker \<Rightarrow> tracker" where
  "add_stock history current_time write_ok self =
     (let symbol = upper (strip (symbol_entry self)) in
      if symbol = [] then self
      else if symbol \<in> set (watchlist self) then
        self\<lparr>dialogs := dialogs self
               @ [ShowWarning ''Duplicate'' (symbol @ '' is already in your watchlist!'')]\<rparr>
      else
        let self = self\<lparr>status_label := ''Validating '' @ symbol @ ''...''\<rparr>;
            (data, sd) = get_stock_data history current_time (stock_data self) symbol ''5d'';
            self = self\<lparr>stock_data := sd\<rparr>
        in if data = None \<or> data = Some [] then
             self\<lparr>dialogs := dialogs self
                    @ [ShowError ''Invalid Symbol'' (''Could not find data for '' @ symbol)],
                  status_label := ''Ready''\<rparr>
           else
             let self = self\<lparr>watchlist := watchlist self @ [symbol]\<rparr>;
                 self = self\<lparr>symbol_entry := []\<rparr>;
                 self = save_watchlist write_ok self
             in if symbol \<in> set (tree self) then self
                else
                  let self = self\<lparr>tree := tree self @ [symbol]\<rparr>;
                      self = self\<lparr>update_threads := update_threads self @ [symbol]\<rparr>
                  in self\<lparr>status_label := ''Added '' @ symbol @ '' to watchlist''\<rparr>)"


text \<open>The tracker after a start without a watchlist file, for the examples.\<close>

definition fresh_tracker :: tracker where
  "fresh_tracker =
     \<lparr>watchlist = [], watchlist_file = ''watchlist.json'', stock_data = StockData_init,
      symbol_entry = [], tree = [], status_label = ''Ready'', dialogs = [],
      update_threads = [], files = Map.empty\<rparr>"

section \<open>Auxiliary definitions for the proofs\<close>







section \<open>Series of finite values\<close>








































section \<open>The JSON text of a list of strings is read back\<close>










section \<open>Insufficient data\<close>

text \<open>
  C1, as far as it holds: the tracker's \<open>calculate_rsi\<close> returns the neutral value 50.0 at
  every position of a series shorter than \<open>period + 1\<close>, and raises nothing.
\<close>

theorem calculate_rsi_short_neutral:
  "int (length prices) < n + 1 \<Longrightarrow>
     calculate_rsi prices n = Inr (replicate (length prices) (Fin 50))"
  by (simp add: calculate_rsi_def)

theorem calculate_rsi_short_neutral_witness:
  "int (length [Fin 10, Fin 11, Fin 9]) < 14 + 1 \<and>
   calculate_rsi [Fin 10, Fin 11, Fin 9] 14 = Inr [Fin 50, Fin 50, Fin 50]"
  using calculate_rsi_short_neutral [of "[Fin 10, Fin 11, Fin 9]" 14]
  by (simp add: numeral_3_eq_3)

text \<open>
  C1 as stated fails on the EMA variant of \<open>indicators/rsi_calculator.py\<close>, which has no
  length check: on the one-element series \<open>[100.0]\<close> with period 14 its only output is
  \<open>NaN\<close> (0/0), not 50.0.
\<close>

theorem indicators_calculate_rsi_short_counterexample:
  "int (length [Fin 100]) < period (RSICalculator_init 14) + 1 \<and>
   indicators_calculate_rsi (RSICalculator_init 14) [Fin 100] = Inr [NaN] \<and>
   NaN \<noteq> Fin 50"
  by (simp add: indicators_calculate_rsi_def RSICalculator_init_def diff_def gains_of_def
      losses_of_def series_where_def ewm_mean_def rsi_of_rs_def fgt_def fsub_def)

section \<open>Signal classification\<close>

text \<open>
  C4: with the thresholds of the constructor (70 and 30), the signal of an RSI value is
  \<open>SELL\<close> exactly when it is above 70, \<open>BUY\<close> exactly when it is below 30 and \<open>HOLD\<close> in
  every other case, in each row of \<open>detect_signals\<close>; the status of the tracker's table
  is \<open>Overbought\<close>, \<open>Oversold\<close> and \<open>Neutral\<close> on the same three conditions.
\<close>

theorem signal_classification:
  "map (\<lambda>(r, s, c). s) (detect_signals (RSICalculator_init p) rsi)
     = map (signal_of (RSICalculator_init p)) rsi
   \<and> (signal_of (RSICalculator_init p) r = SELL) = fgt r (Fin 70)
   \<and> (signal_of (RSICalculator_init p) r = BUY) = flt r (Fin 30)
   \<and> (signal_of (RSICalculator_init p) r = HOLD) = (\<not> fgt r (Fin 70) \<and> \<not> flt r (Fin 30))
   \<and> (rsi_status r = Overbought) = fgt r (Fin 70)
   \<and> (rsi_status r = Oversold) = flt r (Fin 30)
   \<and> (rsi_status r = Neutral) = (\<not> fgt r (Fin 70) \<and> \<not> flt r (Fin 30))"
proof -
  have len: "length (signal_change ss) = length ss" for ss
    by (cases ss) (simp_all add: signal_change_def)
  have rows: "map (\<lambda>(r, s, c). s) (detect_signals c rsi) = map (signal_of c) rsi" for c
  proof -
    have "map (\<lambda>(r, s, c). s) (zip xs (zip ys zs)) = ys"
      if "length xs = length ys" "length ys = length zs" for xs :: series and ys :: "signal list"
        and zs :: "bool list"
      using that
      by (induction xs ys zs rule: list_induct3) simp_all
    then show ?thesis
      by (simp add: detect_signals_def Let_def len)
  qed
  have excl: "\<not> (fgt r (Fin 70) \<and> flt r (Fin 30))"
    by (cases r) (simp_all add: fgt_def)
  show ?thesis
    using excl
    by (auto simp add: rows signal_of_def rsi_status_def RSICalculator_init_def Let_def)
qed

section \<open>The range of the RSI\<close>




section \<open>Saturation on rising prices\<close>

text \<open>
  The sign of an infinite RS does not matter. Where pandas returns a negative zero for the
  average loss, the quotient is the negative infinity, and the RSI is 100 all the same.
\<close>

lemma rsi_of_infinite_rs: "rsi_of_rs PInf = Fin 100 \<and> rsi_of_rs NInf = Fin 100"
  by (simp add: rsi_of_rs_def fsub_def)



section \<open>Divergence classification\<close>









section \<open>Moving averages of a short series\<close>

















section \<open>Cache round trip\<close>

lemma get_stock_data_hit:
  "cache_lookup s (cache_key_of symbol p) t = Some d \<Longrightarrow>
     get_stock_data history t s symbol p = (Some d, s)"
  by (simp add: get_stock_data_def)

lemma get_stock_data_miss_ok:
  "cache_lookup s (cache_key_of symbol p) t = None \<Longrightarrow> history symbol p = Returns d \<Longrightarrow> d \<noteq> [] \<Longrightarrow>
     get_stock_data history t s symbol p =
       (Some d, s\<lparr>requests := requests s @ [(symbol, p)],
                  cache := (cache s)(cache_key_of symbol p \<mapsto> (d, t))\<rparr>)"
  by (simp add: get_stock_data_def)

lemma get_stock_data_miss_fail:
  "cache_lookup s (cache_key_of symbol p) t = None \<Longrightarrow>
   history symbol p = Raises \<or> history symbol p = Returns [] \<Longrightarrow>
     get_stock_data history t s symbol p = (None, s\<lparr>requests := requests s @ [(symbol, p)]\<rparr>)"
  by (auto simp add: get_stock_data_def)

lemma get_stock_data_miss_requests:
  "cache_lookup s (cache_key_of symbol p) t = None \<Longrightarrow>
     requests (snd (get_stock_data history t s symbol p)) = requests s @ [(symbol, p)]"
  by (simp add: get_stock_data_def Let_def split: fetch_outcome.splits)


text \<open>
  C5, as far as it holds. A lookup that is not served from the cache and whose fetch
  returns a frame that is not empty returns that frame, makes one request to the data
  source and stores the frame with the time of the call. A second lookup of the same key
  less than the timeout later returns the same frame and leaves the state as it is: one
  request in all. A second lookup at or after the timeout makes a second request, and,
  when this fetch returns a frame that is not empty, returns it and overwrites the entry
  with the new frame and the new time.
\<close>

theorem cache_round_trip:
  assumes miss: "cache_lookup s (cache_key_of symbol p) t1 = None"
    and ok: "history1 symbol p = Returns d" "d \<noteq> []"
    and s1: "s1 = snd (get_stock_data history1 t1 s symbol p)"
    and s2: "s2 = snd (get_stock_data history2 t2 s1 symbol p)"
  shows "fst (get_stock_data history1 t1 s symbol p) = Some d
       \<and> requests s1 = requests s @ [(symbol, p)]
       \<and> cache s1 (cache_key_of symbol p) = Some (d, t1)
       \<and> (t2 - t1 < cache_timeout s \<longrightarrow>
            fst (get_stock_data history2 t2 s1 symbol p) = Some d \<and> s2 = s1)
       \<and> (\<not> t2 - t1 < cache_timeout s \<longrightarrow>
            requests s2 = requests s @ [(symbol, p), (symbol, p)]
            \<and> (\<forall>d2. history2 symbol p = Returns d2 \<and> d2 \<noteq> [] \<longrightarrow>
                  fst (get_stock_data history2 t2 s1 symbol p) = Some d2
                  \<and> cache s2 (cache_key_of symbol p) = Some (d2, t2)))"
proof -
  have first: "get_stock_data history1 t1 s symbol p =
      (Some d, s\<lparr>requests := requests s @ [(symbol, p)],
                 cache := (cache s)(cache_key_of symbol p \<mapsto> (d, t1))\<rparr>)"
    using miss ok by (rule get_stock_data_miss_ok)
  then have s1': "s1 = s\<lparr>requests := requests s @ [(symbol, p)],
                 cache := (cache s)(cache_key_of symbol p \<mapsto> (d, t1))\<rparr>"
    using s1 by simp
  have look: "cache_lookup s1 (cache_key_of symbol p) t2 =
      (if t2 - t1 < cache_timeout s then Some d else None)"
    by (simp add: s1' cache_lookup_def)
  have within: "fst (get_stock_data history2 t2 s1 symbol p) = Some d \<and> s2 = s1"
    if "t2 - t1 < cache_timeout s"
    using that look s2 get_stock_data_hit [of s1 symbol p t2 d history2] by simp
  have after: "requests s2 = requests s @ [(symbol, p), (symbol, p)]
      \<and> (\<forall>d2. history2 symbol p = Returns d2 \<and> d2 \<noteq> [] \<longrightarrow>
            fst (get_stock_data history2 t2 s1 symbol p) = Some d2
            \<and> cache s2 (cache_key_of symbol p) = Some (d2, t2))"
    if "\<not> t2 - t1 < cache_timeout s"
  proof -
    from that look have m: "cache_lookup s1 (cache_key_of symbol p) t2 = None" by simp
    have "requests s2 = requests s1 @ [(symbol, p)]"
      using get_stock_data_miss_requests [OF m, of history2] s2 by simp
    then have r: "requests s2 = requests s @ [(symbol, p), (symbol, p)]"
      by (simp add: s1')
    have "fst (get_stock_data history2 t2 s1 symbol p) = Some d2
        \<and> cache s2 (cache_key_of symbol p) = Some (d2, t2)"
      if "history2 symbol p = Returns d2" "d2 \<noteq> []" for d2
      using get_stock_data_miss_ok [of s1 symbol p t2 history2 d2] m that s2 by simp
    then show ?thesis using r by blast
  qed
  show ?thesis using first s1' within after by simp
qed


theorem cache_round_trip_witness:
  "cache_lookup StockData_init (cache_key_of ''AAPL'' ''5d'') 0 = None
   \<and> source_up ''AAPL'' ''5d'' = Returns [example_bar] \<and> [example_bar] \<noteq> []
   \<and> (30 :: real) - 0 < cache_timeout StockData_init
   \<and> \<not> (100 :: real) - 0 < cache_timeout StockData_init
   \<and> fst (get_stock_data source_up 0 StockData_init ''AAPL'' ''5d'') = Some [example_bar]
   \<and> get_stock_data source_down 30 (snd (get_stock_data source_up 0 StockData_init ''AAPL'' ''5d''))
        ''AAPL'' ''5d''
      = (Some [example_bar], snd (get_stock_data source_up 0 StockData_init ''AAPL'' ''5d''))
   \<and> requests (snd (get_stock_data source_up 0 StockData_init ''AAPL'' ''5d''))
      = [(''AAPL'', ''5d'')]
   \<and> cache (snd (get_stock_data source_up 100
                   (snd (get_stock_data source_up 0 StockData_init ''AAPL'' ''5d''))
                   ''AAPL'' ''5d'')) (cache_key_of ''AAPL'' ''5d'')
      = Some ([example_bar], 100)"
proof -
  have h: "cache_lookup StockData_init (cache_key_of ''AAPL'' ''5d'') 0 = None"
    "source_up ''AAPL'' ''5d'' = Returns [example_bar]" "[example_bar] \<noteq> []"
    by (simp_all add: cache_lookup_def StockData_init_def source_up_def)
  have t: "(30 :: real) - 0 < cache_timeout StockData_init"
    "\<not> (100 :: real) - 0 < cache_timeout StockData_init"
    by (simp_all add: StockData_init_def)
  have r0: "requests StockData_init = []"
    by (simp add: StockData_init_def)
  show ?thesis
    using h t r0
      cache_round_trip [where ?history1.0 = source_up and ?history2.0 = source_down
        and ?t2.0 = 30, OF h refl refl]
      cache_round_trip [where ?history1.0 = source_up and ?history2.0 = source_up
        and ?t2.0 = 100, OF h refl refl]
    by (auto simp add: prod_eq_iff source_up_def)
qed


text \<open>
  C5 as stated fails where the second fetch fails: after a first fetch at time 0, a
  lookup at time 100 (timeout 60) whose fetch raises makes the second request but leaves
  the entry as it was, with the time 0.
\<close>

theorem cache_stale_entry_kept_counterexample:
  "cache_lookup StockData_init (cache_key_of ''AAPL'' ''5d'') 0 = None
   \<and> fst (get_stock_data source_up 0 StockData_init ''AAPL'' ''5d'') = Some [example_bar]
   \<and> \<not> (100 :: real) - 0 < cache_timeout StockData_init
   \<and> requests (snd (get_stock_data source_down 100
                   (snd (get_stock_data source_up 0 StockData_init ''AAPL'' ''5d''))
                   ''AAPL'' ''5d''))
      = [(''AAPL'', ''5d''), (''AAPL'', ''5d'')]
   \<and> cache (snd (get_stock_data source_down 100
                   (snd (get_stock_data source_up 0 StockData_init ''AAPL'' ''5d''))
                   ''AAPL'' ''5d'')) (cache_key_of ''AAPL'' ''5d'')
      = Some ([example_bar], 0)"
  by (simp add: get_stock_data_def cache_lookup_def StockData_init_def source_up_def
      source_down_def cache_key_of_def Let_def)


section \<open>Failed fetches\<close>

lemma get_stock_data_fail_cache:
  "history symbol p = Raises \<or> history symbol p = Returns [] \<Longrightarrow>
     cache (snd (get_stock_data history t s symbol p)) = cache s
     \<and> cache_timeout (snd (get_stock_data history t s symbol p)) = cache_timeout s"
  by (auto simp add: get_stock_data_def Let_def split: option.splits)

lemma cache_lookup_stays_stale:
  assumes "cache_lookup s k t1 = None" "t1 \<le> t2" "cache s' = cache s"
    "cache_timeout s' = cache_timeout s"
  shows "cache_lookup s' k t2 = None"
proof (cases "cache s k")
  case None
  then show ?thesis using assms(3) by (simp add: cache_lookup_def)
next
  case (Some e)
  obtain d ts where e: "e = (d, ts)" by (cases e)
  from assms(1) Some e have "\<not> t1 - ts < cache_timeout s"
    by (simp add: cache_lookup_def split: if_splits)
  then have "\<not> t2 - ts < cache_timeout s" using assms(2) by linarith
  then show ?thesis using Some e assms(3,4) by (simp add: cache_lookup_def)
qed


text \<open>
  C10: when the fetch raises or returns an empty frame, \<open>get_stock_data\<close> leaves the cache
  as it was; when the lookup was not served from the cache it returns \<open>None\<close> after one
  request to the data source, the key is still not served from the cache, and a following
  lookup of the same key (at a time that is not earlier) makes a request of its own.
\<close>

theorem failed_fetch_not_cached:
  assumes fail: "history1 symbol p = Raises \<or> history1 symbol p = Returns []"
    and s1: "s1 = snd (get_stock_data history1 t1 s symbol p)"
  shows "cache s1 = cache s
       \<and> (cache_lookup s (cache_key_of symbol p) t1 = None \<longrightarrow>
            fst (get_stock_data history1 t1 s symbol p) = None
            \<and> requests s1 = requests s @ [(symbol, p)]
            \<and> cache_lookup s1 (cache_key_of symbol p) t1 = None
            \<and> (t1 \<le> t2 \<longrightarrow>
                 requests (snd (get_stock_data history2 t2 s1 symbol p))
                   = requests s1 @ [(symbol, p)]))"
proof -
  have c: "cache s1 = cache s" "cache_timeout s1 = cache_timeout s"
    using get_stock_data_fail_cache [where history = history1, OF fail, of t1 s] s1
    by simp_all
  have rest: "fst (get_stock_data history1 t1 s symbol p) = None
      \<and> requests s1 = requests s @ [(symbol, p)]
      \<and> cache_lookup s1 (cache_key_of symbol p) t1 = None
      \<and> (t1 \<le> t2 \<longrightarrow>
           requests (snd (get_stock_data history2 t2 s1 symbol p))
             = requests s1 @ [(symbol, p)])"
    if miss: "cache_lookup s (cache_key_of symbol p) t1 = None"
  proof -
    have run: "get_stock_data history1 t1 s symbol p
        = (None, s\<lparr>requests := requests s @ [(symbol, p)]\<rparr>)"
      using get_stock_data_miss_fail [where history = history1, OF miss fail] .
    have still: "cache_lookup s1 (cache_key_of symbol p) t1 = None"
      using cache_lookup_stays_stale [OF miss order_refl c] .
    have "requests (snd (get_stock_data history2 t2 s1 symbol p))
        = requests s1 @ [(symbol, p)]" if "t1 \<le> t2"
      using cache_lookup_stays_stale [OF miss that c]
      by (rule get_stock_data_miss_requests)
    then show ?thesis using run s1 still by simp
  qed
  show ?thesis using c(1) rest by blast
qed

theorem failed_fetch_not_cached_witness:
  "(source_down ''AAPL'' ''5d'' = Raises \<or> source_down ''AAPL'' ''5d'' = Returns [])
   \<and> (source_empty ''AAPL'' ''5d'' = Raises \<or> source_empty ''AAPL'' ''5d'' = Returns [])
   \<and> cache_lookup StockData_init (cache_key_of ''AAPL'' ''5d'') 0 = None \<and> (0 :: real) \<le> 1
   \<and> get_stock_data source_down 0 StockData_init ''AAPL'' ''5d''
      = (None, StockData_init\<lparr>requests := [(''AAPL'', ''5d'')]\<rparr>)
   \<and> get_stock_data source_empty 0 StockData_init ''AAPL'' ''5d''
      = (None, StockData_init\<lparr>requests := [(''AAPL'', ''5d'')]\<rparr>)
   \<and> requests (snd (get_stock_data source_up 1
                      (snd (get_stock_data source_down 0 StockData_init ''AAPL'' ''5d''))
                      ''AAPL'' ''5d''))
      = [(''AAPL'', ''5d''), (''AAPL'', ''5d'')]"
proof -
  have f: "source_down ''AAPL'' ''5d'' = Raises \<or> source_down ''AAPL'' ''5d'' = Returns []"
    "source_empty ''AAPL'' ''5d'' = Raises \<or> source_empty ''AAPL'' ''5d'' = Returns []"
    by (simp_all add: source_down_def source_empty_def)
  have m: "cache_lookup StockData_init (cache_key_of ''AAPL'' ''5d'') 0 = None"
    by (simp add: cache_lookup_def StockData_init_def)
  show ?thesis
    using f m
      failed_fetch_not_cached [where ?history1.0 = source_down and ?history2.0 = source_up
        and s = StockData_init and ?t1.0 = 0 and ?t2.0 = 1, OF f(1) refl]
      failed_fetch_not_cached [where ?history1.0 = source_empty and ?history2.0 = source_up
        and s = StockData_init and ?t1.0 = 0 and ?t2.0 = 1, OF f(2) refl]
    by (simp add: get_stock_data_def StockData_init_def source_down_def source_empty_def
        cache_lookup_def Let_def)
qed

section \<open>Watchlist round trip\<close>




section \<open>Adding a symbol that is already there\<close>

lemma add_stock_present:
  assumes "symbol = upper (strip (symbol_entry s))" "symbol \<noteq> []" "symbol \<in> set (watchlist s)"
  shows "add_stock h t w s =
           s\<lparr>dialogs := dialogs s
                @ [ShowWarning ''Duplicate'' (symbol @ '' is already in your watchlist!'')]\<rparr>"
  using assms by (simp add: add_stock_def Let_def)

lemma add_stock_valid:
  assumes "symbol = upper (strip (symbol_entry s))" "symbol \<noteq> []" "symbol \<notin> set (watchlist s)"
    and "fst (get_stock_data h t (stock_data s) symbol ''5d'') = Some d" "d \<noteq> []"
  shows "watchlist (add_stock h t w s) = watchlist s @ [symbol]"
  using assms
  by (simp add: add_stock_def Let_def save_watchlist_def split_beta)

lemma add_stock_invalid:
  assumes "symbol = upper (strip (symbol_entry s))" "symbol \<noteq> []" "symbol \<notin> set (watchlist s)"
    and "fst (get_stock_data h t (stock_data s) symbol ''5d'') = None"
  shows "watchlist (add_stock h t w s) = watchlist s
       \<and> dialogs (add_stock h t w s) = dialogs s
            @ [ShowError ''Invalid Symbol'' (''Could not find data for '' @ symbol)]"
  using assms
  by (simp add: add_stock_def Let_def split_beta)



text \<open>
  C7, as far as it holds. The symbol is the text of the entry field, stripped and in
  upper case, and is not empty. When it is already in the watchlist, \<open>add_stock\<close> shows
  the warning \<open>Duplicate\<close> and changes nothing else: the watchlist, the file, the cache and
  the table stay as they are. When the watchlist is empty and the validating fetch of the
  first call yields data, typing the symbol and adding it twice leaves exactly one entry,
  and the second call shows the warning \<open>Duplicate\<close>.
\<close>

theorem add_stock_duplicate:
  assumes "symbol = upper (strip entry)" "symbol \<noteq> []"
  shows "(symbol \<in> set (watchlist s) \<longrightarrow>
            add_stock h t w (type_symbol entry s)
              = (type_symbol entry s)\<lparr>dialogs := dialogs s
                  @ [ShowWarning ''Duplicate'' (symbol @ '' is already in your watchlist!'')]\<rparr>)
       \<and> (watchlist s = []
            \<and> fst (get_stock_data h1 t1 (stock_data s) symbol ''5d'') = Some d \<and> d \<noteq> [] \<longrightarrow>
            watchlist (add_stock h1 t1 w1 (type_symbol entry s)) = [symbol]
            \<and> watchlist (add_stock h2 t2 w2
                 (type_symbol entry (add_stock h1 t1 w1 (type_symbol entry s)))) = [symbol]
            \<and> dialogs (add_stock h2 t2 w2
                 (type_symbol entry (add_stock h1 t1 w1 (type_symbol entry s))))
               = dialogs (add_stock h1 t1 w1 (type_symbol entry s))
                   @ [ShowWarning ''Duplicate'' (symbol @ '' is already in your watchlist!'')])"
proof -
  have entry: "symbol = upper (strip (symbol_entry (type_symbol entry x)))" for x
    using assms(1) by (simp add: type_symbol_def)
  have keep: "watchlist (type_symbol entry x) = watchlist x"
    "dialogs (type_symbol entry x) = dialogs x"
    "stock_data (type_symbol entry x) = stock_data x" for x
    by (simp_all add: type_symbol_def)
  have dup: "add_stock h t w (type_symbol entry x)
      = (type_symbol entry x)\<lparr>dialogs := dialogs x
          @ [ShowWarning ''Duplicate'' (symbol @ '' is already in your watchlist!'')]\<rparr>"
    if "symbol \<in> set (watchlist x)" for x h t w
    using add_stock_present [OF entry assms(2), of x h t w] that by (simp add: keep)
  have twice: "watchlist (add_stock h1 t1 w1 (type_symbol entry s)) = [symbol]
      \<and> watchlist (add_stock h2 t2 w2
           (type_symbol entry (add_stock h1 t1 w1 (type_symbol entry s)))) = [symbol]
      \<and> dialogs (add_stock h2 t2 w2
           (type_symbol entry (add_stock h1 t1 w1 (type_symbol entry s))))
         = dialogs (add_stock h1 t1 w1 (type_symbol entry s))
             @ [ShowWarning ''Duplicate'' (symbol @ '' is already in your watchlist!'')]"
    if e: "watchlist s = []"
      and v: "fst (get_stock_data h1 t1 (stock_data s) symbol ''5d'') = Some d" "d \<noteq> []"
  proof -
    define s1 where "s1 = add_stock h1 t1 w1 (type_symbol entry s)"
    have w1: "watchlist s1 = [symbol]"
      unfolding s1_def
      using add_stock_valid [OF entry assms(2), of s h1 t1 d w1] e v by (simp add: keep)
    then have "symbol \<in> set (watchlist s1)" by simp
    from dup [OF this, of h2 t2 w2] w1 show ?thesis
      unfolding s1_def [symmetric] by (simp add: keep)
  qed
  show ?thesis using dup twice by blast
qed


lemma norm_aapl: "upper (strip '' aapl '') = ''AAPL''"
  by (simp add: upper_def strip_def is_space_def upper_char_def)

theorem add_stock_duplicate_witness:
  "''AAPL'' = upper (strip '' aapl '') \<and> ''AAPL'' \<noteq> []
   \<and> ''AAPL'' \<in> set (watchlist (fresh_tracker\<lparr>watchlist := [''MSFT'', ''AAPL'']\<rparr>))
   \<and> watchlist (add_stock source_up 0 True
        (type_symbol '' aapl '' (fresh_tracker\<lparr>watchlist := [''MSFT'', ''AAPL'']\<rparr>)))
      = [''MSFT'', ''AAPL'']
   \<and> watchlist fresh_tracker = []
   \<and> fst (get_stock_data source_up 0 (stock_data fresh_tracker) ''AAPL'' ''5d'')
      = Some [example_bar] \<and> [example_bar] \<noteq> []
   \<and> watchlist (add_stock source_up 0 True (type_symbol '' aapl '' fresh_tracker)) = [''AAPL'']
   \<and> watchlist (add_stock source_up 1 True (type_symbol '' aapl ''
        (add_stock source_up 0 True (type_symbol '' aapl '' fresh_tracker)))) = [''AAPL'']
   \<and> dialogs (add_stock source_up 1 True (type_symbol '' aapl ''
        (add_stock source_up 0 True (type_symbol '' aapl '' fresh_tracker))))
      = [ShowWarning ''Duplicate'' ''AAPL is already in your watchlist!'']"
proof -
  have n: "''AAPL'' = upper (strip '' aapl '')" "''AAPL'' \<noteq> []"
    by (simp_all add: norm_aapl)
  have m: "''AAPL'' \<in> set (watchlist (fresh_tracker\<lparr>watchlist := [''MSFT'', ''AAPL'']\<rparr>))"
    by simp
  have v: "watchlist fresh_tracker = []"
    "fst (get_stock_data source_up 0 (stock_data fresh_tracker) ''AAPL'' ''5d'')
       = Some [example_bar]" "[example_bar] \<noteq> []"
    by (simp_all add: fresh_tracker_def get_stock_data_def cache_lookup_def StockData_init_def
        source_up_def Let_def)
  have d0: "dialogs (add_stock source_up 0 True (type_symbol '' aapl '' fresh_tracker)) = []"
    using v(2)
    by (simp add: add_stock_def type_symbol_def norm_aapl Let_def split_beta fresh_tracker_def
        save_watchlist_def)
  from add_stock_duplicate [OF n, of "fresh_tracker\<lparr>watchlist := [''MSFT'', ''AAPL'']\<rparr>"
      source_up 0 True]
  have a: "watchlist (add_stock source_up 0 True
        (type_symbol '' aapl '' (fresh_tracker\<lparr>watchlist := [''MSFT'', ''AAPL'']\<rparr>)))
      = [''MSFT'', ''AAPL'']"
    using m by (simp add: type_symbol_def)
  from add_stock_duplicate [OF n, of fresh_tracker _ _ _ source_up 0 "[example_bar]" True
      source_up 1 True] v d0
  have b: "watchlist (add_stock source_up 0 True (type_symbol '' aapl '' fresh_tracker)) = [''AAPL'']
   \<and> watchlist (add_stock source_up 1 True (type_symbol '' aapl ''
        (add_stock source_up 0 True (type_symbol '' aapl '' fresh_tracker)))) = [''AAPL'']
   \<and> dialogs (add_stock source_up 1 True (type_symbol '' aapl ''
        (add_stock source_up 0 True (type_symbol '' aapl '' fresh_tracker))))
      = [ShowWarning ''Duplicate'' ''AAPL is already in your watchlist!'']"
    by simp
  show ?thesis using n m v a b by simp
qed


text \<open>
  C7 as stated fails where the validating fetch fails: adding \<open>AAPL\<close> twice to the empty
  watchlist while the data source raises leaves no entry, and both calls show the error
  \<open>Invalid Symbol\<close>, none the warning \<open>Duplicate\<close>.
\<close>

theorem add_stock_twice_invalid_counterexample:
  "watchlist fresh_tracker = []
   \<and> upper (strip ''AAPL'') = ''AAPL''
   \<and> watchlist (add_stock source_down 1 True (type_symbol ''AAPL''
        (add_stock source_down 0 True (type_symbol ''AAPL'' fresh_tracker)))) = []
   \<and> dialogs (add_stock source_down 1 True (type_symbol ''AAPL''
        (add_stock source_down 0 True (type_symbol ''AAPL'' fresh_tracker))))
      = [ShowError ''Invalid Symbol'' ''Could not find data for AAPL'',
         ShowError ''Invalid Symbol'' ''Could not find data for AAPL'']"
proof -
  have n: "upper (strip ''AAPL'') = ''AAPL''"
    by (simp add: upper_def strip_def is_space_def upper_char_def)
  show ?thesis
    by (simp add: n add_stock_def type_symbol_def fresh_tracker_def get_stock_data_def
        cache_lookup_def StockData_init_def source_down_def Let_def)
qed

end
